theory Spec2Isabelle
  imports Complex_Main "HOL-Library.Sublist"
begin

section \<open>Values, exceptions and the result envelope\<close>

text \<open>
  The commands receive their parameters as a JSON object (\<open>json.loads\<close> in every
  \<open>main\<close>). A Python \<open>str\<close> is modelled as a \<open>string\<close> whose characters stand for
  code points below 256; on that range \<open>\d\<close> is \<open>[0-9]\<close>. A Python \<open>float\<close> is the
  exact rational it denotes, or an infinity, or NaN. \<open>int(...)\<close> is modelled with the
  interpreter's optional length limit on decimal strings switched off.
\<close>

datatype pyfloat = Finite rat | PosInf | NegInf | NaN

datatype pyval =
    PNone
  | PBool bool
  | PInt int
  | PFloat pyfloat
  | PStr string
  | PList "pyval list"
  | PDict "(string \<times> pyval) list"

datatype pynum = NInt int | NFloat pyfloat

type_synonym params = "string \<rightharpoonup> pyval"

text \<open>An exception: the name of its class and \<open>str(error)\<close>.\<close>

datatype pyexn = PyExn (exn_type: string) (exn_str: string)

text \<open>\<open>CommandResult\<close> of \<open>core/base_command.py\<close>.\<close>

record 'a CommandResult =
  success :: bool
  message :: string
  output_data :: "'a option"
  error_details :: "string option"

definition bindE :: "pyexn + 'a \<Rightarrow> ('a \<Rightarrow> pyexn + 'b) \<Rightarrow> pyexn + 'b" where
  "bindE m f = (case m of Inl e \<Rightarrow> Inl e | Inr x \<Rightarrow> f x)"

section \<open>Python string operations\<close>

definition is_digit :: "char \<Rightarrow> bool" where
  "is_digit c \<longleftrightarrow> c \<in> set ''0123456789''"

text \<open>\<open>str.isspace\<close> on code points below 256; also the class \<open>\s\<close>.\<close>

definition is_space :: "char \<Rightarrow> bool" where
  "is_space c \<longleftrightarrow> c \<in> set [CHR 0x09, CHR 0x0A, CHR 0x0B, CHR 0x0C, CHR 0x0D,
     CHR 0x1C, CHR 0x1D, CHR 0x1E, CHR 0x1F, CHR 0x20, CHR 0x85, CHR 0xA0]"

text \<open>\<open>sub in s\<close>.\<close>

fun contains :: "string \<Rightarrow> string \<Rightarrow> bool" where
  "contains sub [] = (sub = [])"
| "contains sub (c # cs) = (prefix sub (c # cs) \<or> contains sub cs)"

text \<open>\<open>s.count(sub)\<close>: occurrences that do not overlap, counted from the left.\<close>

fun count_str :: "string \<Rightarrow> string \<Rightarrow> nat" where
  "count_str sub [] = (if sub = [] then 1 else 0)"
| "count_str sub (c # cs) =
     (if sub = [] then 2 + length cs
      else if prefix sub (c # cs) then 1 + count_str sub (drop (length sub - 1) cs)
      else count_str sub cs)"

text \<open>\<open>s.replace(old, new)\<close> for a non-empty \<open>old\<close>.\<close>

fun replace_str :: "string \<Rightarrow> string \<Rightarrow> string \<Rightarrow> string" where
  "replace_str old new [] = []"
| "replace_str old new (c # cs) =
     (if old \<noteq> [] \<and> prefix old (c # cs)
      then new @ replace_str old new (drop (length old - 1) cs)
      else c # replace_str old new cs)"

text \<open>\<open>sep.join(xs)\<close>.\<close>

fun join :: "string \<Rightarrow> string list \<Rightarrow> string" where
  "join sep [] = []"
| "join sep [x] = x"
| "join sep (x # y # ys) = x @ sep @ join sep (y # ys)"

text \<open>\<open>len(s.split(c))\<close> for a one-character separator.\<close>

definition split_count :: "char \<Rightarrow> string \<Rightarrow> nat" where
  "split_count c s = Suc (length (filter (\<lambda>x. x = c) s))"


text \<open>\<open>str(n)\<close> for an integer.\<close>

definition digit_char :: "nat \<Rightarrow> char" where
  "digit_char n = ''0123456789'' ! (n mod 10)"

function str_of_nat :: "nat \<Rightarrow> string" where
  "str_of_nat n = (if n < 10 then [digit_char n] else str_of_nat (n div 10) @ [digit_char n])"
  by pat_completeness auto
termination
  by (relation "measure id") auto

definition str_of_int :: "int \<Rightarrow> string" where
  "str_of_int i = (if i < 0 then CHR ''-'' # str_of_nat (nat (- i)) else str_of_nat (nat i))"

text \<open>\<open>int(s)\<close> for a string of decimal digits.\<close>

definition digit_val :: "char \<Rightarrow> int" where
  "digit_val c = int (length (takeWhile (\<lambda>d. d \<noteq> c) ''0123456789''))"

definition int_of_digits :: "string \<Rightarrow> int" where
  "int_of_digits s = foldl (\<lambda>a c. 10 * a + digit_val c) 0 s"

section \<open>Regular expressions\<close>

text \<open>
  The patterns of the source use literals, one character of a class, a greedy \<open>+\<close> and
  a lazy \<open>*?\<close> of a class, and groups that do not nest. \<open>rmatch\<close> is the backtracking
  matcher of \<open>re\<close> on that fragment: the greedy repetition first tries to take one
  more character, the lazy one first tries to stop. \<open>rsearch\<close> is \<open>re.search\<close>
  followed by \<open>groups()\<close>: the match at the leftmost position that has one.
\<close>

datatype rx =
    Cls "char \<Rightarrow> bool"
  | Plus "char \<Rightarrow> bool"
  | LazyStar "char \<Rightarrow> bool"
  | Open
  | Close

type_synonym caps = "string list \<times> string option"

fun push :: "char \<Rightarrow> caps \<Rightarrow> caps" where
  "push c (d, None) = (d, None)"
| "push c (d, Some a) = (d, Some (a @ [c]))"

fun rmatch :: "rx list \<Rightarrow> string \<Rightarrow> caps \<Rightarrow> string list option" where
  "rmatch [] s g = Some (fst g)"
| "rmatch (Open # r) s g = rmatch r s (fst g, Some [])"
| "rmatch (Close # r) s g =
     rmatch r s (case snd g of None \<Rightarrow> g | Some a \<Rightarrow> (fst g @ [a], None))"
| "rmatch (Cls p # r) [] g = None"
| "rmatch (Cls p # r) (c # cs) g = (if p c then rmatch r cs (push c g) else None)"
| "rmatch (Plus p # r) [] g = None"
| "rmatch (Plus p # r) (c # cs) g =
     (if p c
      then (case rmatch (Plus p # r) cs (push c g) of
              Some x \<Rightarrow> Some x
            | None \<Rightarrow> rmatch r cs (push c g))
      else None)"
| "rmatch (LazyStar p # r) [] g = rmatch r [] g"
| "rmatch (LazyStar p # r) (c # cs) g =
     (case rmatch r (c # cs) g of
        Some x \<Rightarrow> Some x
      | None \<Rightarrow> if p c then rmatch (LazyStar p # r) cs (push c g) else None)"

fun rsearch :: "rx list \<Rightarrow> string \<Rightarrow> string list option" where
  "rsearch r [] = rmatch r [] ([], None)"
| "rsearch r (c # cs) =
     (case rmatch r (c # cs) ([], None) of Some g \<Rightarrow> Some g | None \<Rightarrow> rsearch r cs)"

definition lit :: "string \<Rightarrow> rx list" where
  "lit s = map (\<lambda>c. Cls (\<lambda>x. x = c)) s"

definition digits_group :: "rx list" where
  "digits_group = [Open, Plus is_digit, Close]"

text \<open>The class \<open>.\<close>: any character but the newline.\<close>

definition dot :: "char \<Rightarrow> bool" where
  "dot c \<longleftrightarrow> c \<noteq> CHR 0x0A"

section \<open>The interpreter and the operating system\<close>

text \<open>
  What the commands obtain from outside the repository: \<open>subprocess.run\<close>,
  \<open>pathlib\<close>, the clock, \<open>repr\<close> and the rounding of \<open>float(...)\<close>. They are
  parameters of the model. A process is started with a shell line and a working
  directory, or with an argument vector and an optional working directory.
\<close>

datatype invocation =
    Shell string string
  | Argv "string list" "string option"

record proc_result =
  returncode :: int
  stdout :: string
  stderr :: string

record runtime =
  run_process :: "invocation \<Rightarrow> pyexn + proc_result"
  path_exists :: "string \<Rightarrow> bool"
  path_str :: "string \<Rightarrow> string"
  path_glob :: "string \<Rightarrow> string \<Rightarrow> string list"
  py_repr :: "pyval \<Rightarrow> string"
  float_of_str :: "string \<Rightarrow> pyfloat"
  today :: string

text \<open>
  A computation that may call \<open>subprocess.run\<close>: its result or the exception it
  raises, and the calls it made, in order.
\<close>

type_synonym 'a io = "(pyexn + 'a) \<times> invocation list"

definition returnIO :: "'a \<Rightarrow> 'a io" where
  "returnIO x = (Inr x, [])"

definition liftE :: "pyexn + 'a \<Rightarrow> 'a io" where
  "liftE m = (m, [])"

definition bindIO :: "'a io \<Rightarrow> ('a \<Rightarrow> 'b io) \<Rightarrow> 'b io" where
  "bindIO m f =
     (case m of
        (Inl e, calls) \<Rightarrow> (Inl e, calls)
      | (Inr x, calls) \<Rightarrow> (case f x of (r, calls') \<Rightarrow> (r, calls @ calls')))"

definition subprocess_run :: "runtime \<Rightarrow> invocation \<Rightarrow> proc_result io" where
  "subprocess_run rt call = (run_process rt call, [call])"

section \<open>Python operations on parameter values\<close>

definition type_name :: "pyval \<Rightarrow> string" where
  "type_name v =
     (case v of PNone \<Rightarrow> ''NoneType'' | PBool _ \<Rightarrow> ''bool'' | PInt _ \<Rightarrow> ''int''
      | PFloat _ \<Rightarrow> ''float'' | PStr _ \<Rightarrow> ''str'' | PList _ \<Rightarrow> ''list''
      | PDict _ \<Rightarrow> ''dict'')"

text \<open>\<open>str(v)\<close>, as an f-string formats a value.\<close>

definition py_str :: "runtime \<Rightarrow> pyval \<Rightarrow> string" where
  "py_str rt v =
     (case v of PNone \<Rightarrow> ''None'' | PBool b \<Rightarrow> (if b then ''True'' else ''False'')
      | PInt i \<Rightarrow> str_of_int i | PStr s \<Rightarrow> s | _ \<Rightarrow> py_repr rt v)"

definition num_str :: "runtime \<Rightarrow> pynum \<Rightarrow> string" where
  "num_str rt n = (case n of NInt i \<Rightarrow> str_of_int i | NFloat f \<Rightarrow> py_repr rt (PFloat f))"

text \<open>The truth value of \<open>if v:\<close>.\<close>

definition truthy :: "pyval \<Rightarrow> bool" where
  "truthy v =
     (case v of PNone \<Rightarrow> False | PBool b \<Rightarrow> b | PInt i \<Rightarrow> i \<noteq> 0
      | PFloat f \<Rightarrow> f \<noteq> Finite 0 | PStr s \<Rightarrow> s \<noteq> [] | PList xs \<Rightarrow> xs \<noteq> []
      | PDict kvs \<Rightarrow> kvs \<noteq> [])"

text \<open>\<open>a >= b\<close> on floats, and on a parsed number against a parameter value.\<close>

fun float_ge :: "pyfloat \<Rightarrow> pyfloat \<Rightarrow> bool" where
  "float_ge NaN _ = False"
| "float_ge _ NaN = False"
| "float_ge PosInf _ = True"
| "float_ge _ NegInf = True"
| "float_ge (Finite a) (Finite b) = (b \<le> a)"
| "float_ge (Finite a) PosInf = False"
| "float_ge NegInf (Finite b) = False"
| "float_ge NegInf PosInf = False"

definition num_value :: "pynum \<Rightarrow> pyfloat" where
  "num_value n = (case n of NInt i \<Rightarrow> Finite (of_int i) | NFloat f \<Rightarrow> f)"

definition as_number :: "pyval \<Rightarrow> pyfloat option" where
  "as_number v =
     (case v of PInt i \<Rightarrow> Some (Finite (of_int i))
      | PBool b \<Rightarrow> Some (Finite (if b then 1 else 0))
      | PFloat f \<Rightarrow> Some f | _ \<Rightarrow> None)"

definition quoted :: "string \<Rightarrow> string" where
  "quoted s = CHR 0x27 # s @ [CHR 0x27]"

definition py_ge :: "pynum \<Rightarrow> pyval \<Rightarrow> pyexn + bool" where
  "py_ge a b =
     (case as_number b of
        Some y \<Rightarrow> Inr (float_ge (num_value a) y)
      | None \<Rightarrow> Inl (PyExn ''TypeError''
          (quoted ''>='' @ '' not supported between instances of ''
           @ quoted (case a of NInt _ \<Rightarrow> ''int'' | NFloat _ \<Rightarrow> ''float'')
           @ '' and '' @ quoted (type_name b))))"

section \<open>\<open>BaseCommand\<close>\<close>

text \<open>\<open>name in self.parameters\<close> and \<open>self.parameters[name]\<close>.\<close>

definition getitem :: "runtime \<Rightarrow> params \<Rightarrow> string \<Rightarrow> pyexn + pyval" where
  "getitem rt ps name =
     (case ps name of
        None \<Rightarrow> Inl (PyExn ''KeyError'' (py_repr rt (PStr name)))
      | Some v \<Rightarrow> Inr v)"

definition require_parameters :: "params \<Rightarrow> string list \<Rightarrow> pyexn + unit" where
  "require_parameters ps parameter_names =
     (let missing_parameters = filter (\<lambda>param_name. ps param_name = None) parameter_names
      in if missing_parameters \<noteq> []
         then Inl (PyExn ''ValueError''
                (''Missing required parameters: '' @ join '', '' missing_parameters))
         else Inr ())"

definition get_parameter :: "params \<Rightarrow> string \<Rightarrow> pyval \<Rightarrow> pyval" where
  "get_parameter ps parameter_name default_value =
     (case ps parameter_name of None \<Rightarrow> default_value | Some v \<Rightarrow> v)"

text \<open>
  \<open>__init__\<close> stores the parameters and validates them; an exception of the
  validation leaves the constructor. \<open>validate_parameters\<close> and \<open>execute\<close> are the
  abstract methods, here arguments.
\<close>

definition BaseCommand_init :: "(params \<Rightarrow> pyexn + unit) \<Rightarrow> params \<Rightarrow> pyexn + params" where
  "BaseCommand_init validate_parameters ps = bindE (validate_parameters ps) (\<lambda>_. Inr ps)"

definition run :: "'a CommandResult io \<Rightarrow> 'a CommandResult \<times> invocation list" where
  "run execute =
     (case execute of
        (Inr result, calls) \<Rightarrow> (result, calls)
      | (Inl error, calls) \<Rightarrow>
          (\<lparr>success = False,
            message = ''Command execution failed: '' @ exn_type error,
            output_data = None,
            error_details = Some (exn_str error)\<rparr>, calls))"

text \<open>
  What every \<open>main\<close> does with the parsed parameters: \<open>command = C(parameters)\<close>,
  then \<open>result = command.run()\<close>. \<open>Inl\<close> is an exception that reaches the caller.
\<close>

definition construct_and_run ::
  "(params \<Rightarrow> pyexn + unit) \<Rightarrow> (params \<Rightarrow> 'a CommandResult io) \<Rightarrow> params
   \<Rightarrow> (pyexn + 'a CommandResult) \<times> invocation list" where
  "construct_and_run validate_parameters execute ps =
     (case BaseCommand_init validate_parameters ps of
        Inl e \<Rightarrow> (Inl e, [])
      | Inr command \<Rightarrow> (case run (execute command) of (result, calls) \<Rightarrow> (Inr result, calls)))"

text \<open>
  \<open>key in d\<close> for a dictionary with string keys (the key is hashed), \<open>x in xs\<close> for a
  list of strings (compared with \<open>==\<close>), and \<open>Path(v)\<close>, which keeps the string here;
  the wording of its \<open>TypeError\<close> is that of CPython 3.11.
\<close>

definition in_dict_keys :: "pyval \<Rightarrow> string list \<Rightarrow> pyexn + bool" where
  "in_dict_keys v keys =
     (case v of
        PStr s \<Rightarrow> Inr (s \<in> set keys)
      | PList _ \<Rightarrow> Inl (PyExn ''TypeError'' (''unhashable type: '' @ quoted ''list''))
      | PDict _ \<Rightarrow> Inl (PyExn ''TypeError'' (''unhashable type: '' @ quoted ''dict''))
      | _ \<Rightarrow> Inr False)"

definition in_str_list :: "pyval \<Rightarrow> string list \<Rightarrow> bool" where
  "in_str_list v xs = (case v of PStr s \<Rightarrow> s \<in> set xs | _ \<Rightarrow> False)"

definition make_path :: "pyval \<Rightarrow> pyexn + string" where
  "make_path v =
     (case v of
        PStr s \<Rightarrow> Inr s
      | _ \<Rightarrow> Inl (PyExn ''TypeError''
          (''expected str, bytes or os.PathLike object, not '' @ type_name v)))"

section \<open>\<open>TestCommand\<close>\<close>

definition DEFAULT_TEST_COMMANDS :: "(string \<times> string) list" where
  "DEFAULT_TEST_COMMANDS =
     [(''maven'', ''mvn test''), (''gradle'', ''./gradlew test''), (''pytest'', ''pytest''),
      (''jest'', ''npm test''), (''gotest'', ''go test ./...'')]"

definition TestCommand_validate_parameters :: "runtime \<Rightarrow> params \<Rightarrow> pyexn + unit" where
  "TestCommand_validate_parameters rt ps =
     bindE (require_parameters ps [''test_framework'', ''project_path'']) (\<lambda>_.
     bindE (getitem rt ps ''test_framework'') (\<lambda>test_framework.
     bindE (in_dict_keys test_framework (map fst DEFAULT_TEST_COMMANDS)) (\<lambda>known.
     if \<not> known
     then Inl (PyExn ''ValueError''
            (''Unsupported test framework: '' @ py_str rt test_framework
             @ ''. Supported frameworks: '' @ join '', '' (map fst DEFAULT_TEST_COMMANDS)))
     else
     bindE (getitem rt ps ''project_path'') (\<lambda>v.
     bindE (make_path v) (\<lambda>project_path.
     if \<not> path_exists rt project_path
     then Inl (PyExn ''ValueError''
            (''Project path does not exist: '' @ path_str rt project_path))
     else Inr ())))))"

text \<open>
  \<open>_prepare_test_command\<close>. A custom \<open>test_command\<close> is a string, as documented; a
  value of another type is reported as \<open>TypeError\<close> here.
\<close>

definition expect_str :: "pyval \<Rightarrow> pyexn + string" where
  "expect_str v =
     (case v of
        PStr s \<Rightarrow> Inr s
      | _ \<Rightarrow> Inl (PyExn ''TypeError'' (''expected str, not '' @ type_name v)))"

definition default_command :: "runtime \<Rightarrow> (string \<times> string) list \<Rightarrow> pyval \<Rightarrow> pyexn + string" where
  "default_command rt table key =
     bindE (in_dict_keys key (map fst table)) (\<lambda>_.
     case key of
       PStr s \<Rightarrow> (case map_of table s of
                    Some c \<Rightarrow> Inr c
                  | None \<Rightarrow> Inl (PyExn ''KeyError'' (py_repr rt key)))
     | _ \<Rightarrow> Inl (PyExn ''KeyError'' (py_repr rt key)))"

definition prepare_test_command :: "runtime \<Rightarrow> params \<Rightarrow> pyexn + string" where
  "prepare_test_command rt ps =
     bindE (case ps ''test_command'' of
              Some v \<Rightarrow> expect_str v
            | None \<Rightarrow> bindE (getitem rt ps ''test_framework'')
                        (default_command rt DEFAULT_TEST_COMMANDS)) (\<lambda>base_command.
     let coverage_enabled = get_parameter ps ''coverage_enabled'' (PBool False);
         base_command =
           (if truthy coverage_enabled then
              (if contains ''maven'' base_command then ''mvn test jacoco:report''
               else if contains ''gradle'' base_command then base_command @ '' jacocoTestReport''
               else if contains ''pytest'' base_command
                 then base_command @ '' --cov --cov-report=term --cov-report=html''
               else if contains ''jest'' base_command then base_command @ '' --coverage''
               else base_command)
            else base_command);
         fail_fast = get_parameter ps ''fail_fast'' (PBool False);
         base_command =
           (if truthy fail_fast then
              (if contains ''pytest'' base_command then base_command @ '' -x''
               else if contains ''maven'' base_command
                 then base_command @ '' -DfailIfNoTests=false''
               else base_command)
            else base_command);
         parallel_execution = get_parameter ps ''parallel_execution'' (PBool False);
         base_command =
           (if truthy parallel_execution then
              (if contains ''pytest'' base_command then base_command @ '' -n auto''
               else if contains ''maven'' base_command then base_command @ '' -T 1C''
               else if contains ''jest'' base_command then base_command @ '' --maxWorkers=50%''
               else base_command)
            else base_command);
         test_pattern = get_parameter ps ''test_pattern'' PNone;
         base_command =
           (if truthy test_pattern then
              (if contains ''pytest'' base_command
                 then base_command @ '' -k '' @ [CHR 0x22] @ py_str rt test_pattern @ [CHR 0x22]
               else if contains ''maven'' base_command
                 then base_command @ '' -Dtest='' @ py_str rt test_pattern
               else base_command)
            else base_command);
         test_arguments = get_parameter ps ''test_arguments'' (PStr []);
         base_command =
           (if truthy test_arguments then base_command @ '' '' @ py_str rt test_arguments
            else base_command)
     in Inr base_command)"

text \<open>\<open>_execute_tests\<close>: the exit code is not looked at.\<close>

definition execute_tests :: "runtime \<Rightarrow> string \<Rightarrow> string \<Rightarrow> string io" where
  "execute_tests rt test_command project_path =
     bindIO (subprocess_run rt (Shell test_command project_path)) (\<lambda>process_result.
     returnIO (stdout process_result @ stderr process_result))"

text \<open>The dictionary \<open>results\<close> of \<open>_parse_test_results\<close> and its patterns.\<close>

record test_results =
  tests_total :: int
  tests_passed :: int
  tests_failed :: int
  tests_skipped :: int
  coverage_percentage :: "pynum option"
  duration_seconds :: "pynum option"

definition maven_rx :: "rx list" where
  "maven_rx = lit ''Tests run: '' @ digits_group @ lit '', Failures: '' @ digits_group
     @ lit '', Errors: '' @ digits_group @ lit '', Skipped: '' @ digits_group"

definition passed_rx :: "rx list" where
  "passed_rx = digits_group @ lit '' passed''"

definition failed_rx :: "rx list" where
  "failed_rx = digits_group @ lit '' failed''"

definition skipped_rx :: "rx list" where
  "skipped_rx = digits_group @ lit '' skipped''"

definition pytest_coverage_rx :: "rx list" where
  "pytest_coverage_rx = lit ''TOTAL'' @ [LazyStar dot] @ digits_group @ lit ''%''"

definition jest_rx :: "rx list" where
  "jest_rx = lit ''Tests:'' @ [Plus is_space] @ digits_group @ lit '' passed''
     @ [LazyStar dot] @ digits_group @ lit '' total''"

definition jest_coverage_rx :: "rx list" where
  "jest_coverage_rx = lit ''All files'' @ [Plus is_space] @ lit ''|'' @ [Plus is_space]
     @ [Open, Plus (\<lambda>c. is_digit c \<or> c = CHR ''.''), Close]"

text \<open>
  \<open>float(s)\<close> for a string of digits and dots: a \<open>ValueError\<close> unless there is a
  digit and at most one dot.
\<close>

definition py_float :: "runtime \<Rightarrow> string \<Rightarrow> pyexn + pyfloat" where
  "py_float rt s =
     (if length (filter (\<lambda>c. c = CHR ''.'') s) \<le> 1 \<and> list_ex is_digit s
      then Inr (float_of_str rt s)
      else Inl (PyExn ''ValueError''
             (''could not convert string to float: '' @ py_repr rt (PStr s))))"

text \<open>\<open>int(m.group(1)) if m else 0\<close> for the match \<open>m\<close> of a pattern with one group.\<close>

definition first_int :: "rx list \<Rightarrow> string \<Rightarrow> int" where
  "first_int r s = (case rsearch r s of Some [d] \<Rightarrow> int_of_digits d | _ \<Rightarrow> 0)"

definition parse_test_results :: "runtime \<Rightarrow> pyval \<Rightarrow> string \<Rightarrow> pyexn + test_results" where
  "parse_test_results rt test_framework test_output =
     (let results = \<lparr>tests_total = 0, tests_passed = 0, tests_failed = 0, tests_skipped = 0,
                      coverage_percentage = None, duration_seconds = None\<rparr>
      in
      if in_str_list test_framework [''maven'', ''gradle''] then
        (case rsearch maven_rx test_output of
           Some [g1, g2, g3, g4] \<Rightarrow>
             (let tests_run = int_of_digits g1; failures = int_of_digits g2;
                  errors = int_of_digits g3; skipped = int_of_digits g4
              in Inr (results\<lparr>tests_total := tests_run,
                               tests_failed := failures + errors,
                               tests_passed := tests_run - failures - errors - skipped,
                               tests_skipped := skipped\<rparr>))
         | _ \<Rightarrow> Inr results)
      else if test_framework = PStr ''pytest'' then
        (let passed = first_int passed_rx test_output;
             failed = first_int failed_rx test_output;
             skipped = first_int skipped_rx test_output;
             results = results\<lparr>tests_passed := passed, tests_failed := failed,
                                tests_skipped := skipped,
                                tests_total := passed + failed + skipped\<rparr>
         in case rsearch pytest_coverage_rx test_output of
              Some [g] \<Rightarrow> Inr (results\<lparr>coverage_percentage := Some (NInt (int_of_digits g))\<rparr>)
            | _ \<Rightarrow> Inr results)
      else if test_framework = PStr ''jest'' then
        (let results =
               (case rsearch jest_rx test_output of
                  Some [g1, g2] \<Rightarrow>
                    (let passed = int_of_digits g1; total = int_of_digits g2
                     in results\<lparr>tests_passed := passed, tests_total := total,
                                  tests_failed := total - passed\<rparr>)
                | _ \<Rightarrow> results)
         in case rsearch jest_coverage_rx test_output of
              Some [g] \<Rightarrow>
                bindE (py_float rt g) (\<lambda>f. Inr (results\<lparr>coverage_percentage := Some (NFloat f)\<rparr>))
            | _ \<Rightarrow> Inr results)
      else if test_framework = PStr ''gotest'' then
        (if contains ''PASS'' test_output then
           (let ok_count = int (count_str [CHR 0x09, CHR ''o'', CHR ''k'', CHR 0x09] test_output)
            in Inr (results\<lparr>tests_passed := ok_count, tests_total := ok_count\<rparr>))
         else if contains ''FAIL'' test_output then
           Inr (results\<lparr>tests_failed := 1, tests_total := 1\<rparr>)
         else Inr results)
      else Inr results)"

text \<open>\<open>_check_coverage_threshold\<close> and the dictionary it returns.\<close>

record coverage_check =
  enabled :: bool
  passed :: bool
  threshold :: pyval
  actual :: "pynum option"
  check_message :: string

definition check_coverage_threshold ::
  "runtime \<Rightarrow> params \<Rightarrow> test_results \<Rightarrow> pyexn + coverage_check option" where
  "check_coverage_threshold rt ps results =
     (let coverage_enabled = get_parameter ps ''coverage_enabled'' (PBool False)
      in
      if \<not> truthy coverage_enabled then Inr None
      else
        (let coverage_threshold = get_parameter ps ''coverage_threshold'' (PInt 80)
         in case coverage_percentage results of
              None \<Rightarrow>
                Inr (Some \<lparr>enabled = True, passed = True, threshold = coverage_threshold,
                           actual = None, check_message = ''Coverage data not available''\<rparr>)
            | Some percentage \<Rightarrow>
                bindE (py_ge percentage coverage_threshold) (\<lambda>ok.
                Inr (Some \<lparr>enabled = True, passed = ok, threshold = coverage_threshold,
                           actual = Some percentage,
                           check_message =
                             (if ok
                              then ''Coverage '' @ num_str rt percentage @ ''% meets threshold ''
                                   @ py_str rt coverage_threshold @ ''%''
                              else ''Coverage '' @ num_str rt percentage @ ''% below threshold ''
                                   @ py_str rt coverage_threshold @ ''%'')\<rparr>))))"

definition generate_result_message ::
  "runtime \<Rightarrow> test_results \<Rightarrow> coverage_check option \<Rightarrow> string" where
  "generate_result_message rt results check =
     (let total = tests_total results; n_passed = tests_passed results;
          failed = tests_failed results; skipped = tests_skipped results;
          msg = ''Tests completed: '' @ str_of_int n_passed @ ''/'' @ str_of_int total
                @ '' passed'';
          msg = (if failed > 0 then msg @ '', '' @ str_of_int failed @ '' failed'' else msg);
          msg = (if skipped > 0 then msg @ '', '' @ str_of_int skipped @ '' skipped'' else msg)
      in case check of
           Some c \<Rightarrow>
             (case actual c of
                Some a \<Rightarrow> msg @ '' | Coverage: '' @ num_str rt a @ ''%''
              | None \<Rightarrow> msg)
         | None \<Rightarrow> msg)"

text \<open>\<open>execute\<close> and its \<open>output_data\<close>.\<close>

record test_output_data =
  test_framework :: pyval
  project_path :: string
  command_executed :: string
  test_results :: test_results
  coverage_check :: "coverage_check option"

definition TestCommand_execute :: "runtime \<Rightarrow> params \<Rightarrow> test_output_data CommandResult io" where
  "TestCommand_execute rt ps =
     bindIO (liftE (getitem rt ps ''test_framework'')) (\<lambda>framework.
     bindIO (liftE (bindE (getitem rt ps ''project_path'') make_path)) (\<lambda>path.
     bindIO (liftE (prepare_test_command rt ps)) (\<lambda>test_command.
     bindIO (execute_tests rt test_command path) (\<lambda>test_output.
     bindIO (liftE (parse_test_results rt framework test_output)) (\<lambda>results.
     bindIO (liftE (check_coverage_threshold rt ps results)) (\<lambda>check.
     let tests_ok = (tests_failed results = 0);
         coverage_passed = (case check of Some c \<Rightarrow> passed c | None \<Rightarrow> True);
         overall_success = (tests_ok \<and> coverage_passed);
         msg = generate_result_message rt results check
     in returnIO
          \<lparr>success = overall_success,
           message = msg,
           output_data = Some \<lparr>test_framework = framework,
                                project_path = path_str rt path,
                                command_executed = test_command,
                                test_results = results,
                                coverage_check = check\<rparr>,
           error_details = None\<rparr>))))))"

section \<open>\<open>BuildCommand\<close>\<close>

definition DEFAULT_BUILD_COMMANDS :: "(string \<times> string) list" where
  "DEFAULT_BUILD_COMMANDS =
     [(''maven'', ''mvn clean install''), (''gradle'', ''./gradlew clean build''),
      (''npm'', ''npm run build''), (''pip'', ''pip install -e .''),
      (''go'', ''go build -o ./bin/app'')]"

definition BuildCommand_validate_parameters :: "runtime \<Rightarrow> params \<Rightarrow> pyexn + unit" where
  "BuildCommand_validate_parameters rt ps =
     bindE (require_parameters ps [''build_tool'', ''project_path'']) (\<lambda>_.
     bindE (getitem rt ps ''build_tool'') (\<lambda>build_tool.
     bindE (in_dict_keys build_tool (map fst DEFAULT_BUILD_COMMANDS)) (\<lambda>known.
     if \<not> known
     then Inl (PyExn ''ValueError''
            (''Unsupported build tool: '' @ py_str rt build_tool
             @ ''. Supported tools: '' @ join '', '' (map fst DEFAULT_BUILD_COMMANDS)))
     else
     bindE (getitem rt ps ''project_path'') (\<lambda>v.
     bindE (make_path v) (\<lambda>path.
     if \<not> path_exists rt path
     then Inl (PyExn ''ValueError'' (''Project path does not exist: '' @ path_str rt path))
     else Inr ())))))"

text \<open>\<open>_prepare_build_command\<close>; a custom \<open>build_command\<close> is a string, as documented.\<close>

definition prepare_build_command :: "runtime \<Rightarrow> params \<Rightarrow> pyexn + string" where
  "prepare_build_command rt ps =
     bindE (case ps ''build_command'' of
              Some v \<Rightarrow> expect_str v
            | None \<Rightarrow> bindE (getitem rt ps ''build_tool'')
                        (default_command rt DEFAULT_BUILD_COMMANDS)) (\<lambda>base_command.
     let skip_tests = get_parameter ps ''skip_tests'' (PBool False);
         base_command =
           (if truthy skip_tests then
              (if contains ''maven'' base_command then base_command @ '' -DskipTests''
               else if contains ''gradle'' base_command then base_command @ '' -x test''
               else base_command)
            else base_command);
         clean_before_build = get_parameter ps ''clean_before_build'' (PBool True);
         base_command =
           (if \<not> truthy clean_before_build then replace_str ''clean '' [] base_command
            else base_command);
         build_arguments = get_parameter ps ''build_arguments'' (PStr []);
         base_command =
           (if truthy build_arguments then base_command @ '' '' @ py_str rt build_arguments
            else base_command)
     in Inr base_command)"

text \<open>\<open>_execute_build\<close>: a non-zero exit code raises, with the standard error in the text.\<close>

definition execute_build :: "runtime \<Rightarrow> string \<Rightarrow> string \<Rightarrow> string io" where
  "execute_build rt build_command path =
     bindIO (subprocess_run rt (Shell build_command path)) (\<lambda>process_result.
     if returncode process_result \<noteq> 0
     then liftE (Inl (PyExn ''RuntimeError''
            (''Build failed with exit code '' @ str_of_int (returncode process_result)
             @ [CHR 0x0A] @ ''Error output:'' @ [CHR 0x0A] @ stderr process_result)))
     else returnIO (stdout process_result @ stderr process_result))"

definition artifact_patterns :: "(string \<times> string list) list" where
  "artifact_patterns =
     [(''maven'', [''target/*.jar'', ''target/*.war'']), (''gradle'', [''build/libs/*.jar'']),
      (''npm'', [''dist/**/*'', ''build/**/*'']), (''go'', [''bin/*''])]"

definition find_build_artifacts :: "runtime \<Rightarrow> pyval \<Rightarrow> string \<Rightarrow> pyexn + string list" where
  "find_build_artifacts rt build_tool path =
     bindE (in_dict_keys build_tool (map fst artifact_patterns)) (\<lambda>_.
     let patterns = (case build_tool of
                       PStr s \<Rightarrow> (case map_of artifact_patterns s of Some ps \<Rightarrow> ps | None \<Rightarrow> [])
                     | _ \<Rightarrow> [])
     in Inr (concat (map (path_glob rt path) patterns)))"

record build_output_data =
  build_tool :: pyval
  build_project_path :: string
  build_command_executed :: string
  artifacts :: "string list"
  build_output_lines :: nat

definition BuildCommand_execute :: "runtime \<Rightarrow> params \<Rightarrow> build_output_data CommandResult io" where
  "BuildCommand_execute rt ps =
     bindIO (liftE (getitem rt ps ''build_tool'')) (\<lambda>tool.
     bindIO (liftE (bindE (getitem rt ps ''project_path'') make_path)) (\<lambda>path.
     bindIO (liftE (prepare_build_command rt ps)) (\<lambda>build_command.
     bindIO (execute_build rt build_command path) (\<lambda>build_output.
     bindIO (liftE (find_build_artifacts rt tool path)) (\<lambda>found.
     returnIO
       \<lparr>success = True,
        message = ''Build completed successfully using '' @ py_str rt tool,
        output_data = Some \<lparr>build_tool = tool,
                             build_project_path = path_str rt path,
                             build_command_executed = build_command,
                             artifacts = found,
                             build_output_lines = split_count (CHR 0x0A) build_output\<rparr>,
        error_details = None\<rparr>)))))"

section \<open>\<open>DockerCommand\<close>: validation, tags and the image build\<close>

definition DOCKER_VALID_OPERATIONS :: "string list" where
  "DOCKER_VALID_OPERATIONS = [''build'', ''push'', ''build-and-push'']"

definition DockerCommand_validate_parameters :: "runtime \<Rightarrow> params \<Rightarrow> pyexn + unit" where
  "DockerCommand_validate_parameters rt ps =
     bindE (require_parameters ps [''operation'', ''image_name'']) (\<lambda>_.
     bindE (getitem rt ps ''operation'') (\<lambda>operation.
     if \<not> in_str_list operation DOCKER_VALID_OPERATIONS
     then Inl (PyExn ''ValueError''
            (''Invalid operation: '' @ py_str rt operation
             @ ''. Valid operations: '' @ join '', '' DOCKER_VALID_OPERATIONS))
     else if in_str_list operation [''build'', ''build-and-push'']
     then bindE (make_path (get_parameter ps ''dockerfile_path'' (PStr ''./Dockerfile'')))
            (\<lambda>dockerfile_path.
            if \<not> path_exists rt dockerfile_path
            then Inl (PyExn ''ValueError''
                   (''Dockerfile not found: '' @ path_str rt dockerfile_path))
            else Inr ())
     else Inr ()))"




text \<open>The class \<open>[a-zA-Z0-9._-]\<close> and \<open>re.sub\<close> of the characters outside it.\<close>

definition tag_char :: "char \<Rightarrow> bool" where
  "tag_char c \<longleftrightarrow>
     c \<in> set ''abcdefghijklmnopqrstuvwxyzABCDEFGHIJKLMNOPQRSTUVWXYZ0123456789._-''"

definition sanitize_branch :: "string \<Rightarrow> string" where
  "sanitize_branch branch_name = concat (map (\<lambda>c. if \<not> tag_char c then ''-'' else [c]) branch_name)"







section \<open>\<open>TerraformCommand\<close>: validation, process invocation and the plan summary\<close>

definition TERRAFORM_VALID_OPERATIONS :: "string list" where
  "TERRAFORM_VALID_OPERATIONS = [''init'', ''plan'', ''apply'', ''destroy'', ''validate'', ''output'']"

definition TerraformCommand_validate_parameters :: "runtime \<Rightarrow> params \<Rightarrow> pyexn + unit" where
  "TerraformCommand_validate_parameters rt ps =
     bindE (require_parameters ps [''operation'', ''working_dir'']) (\<lambda>_.
     bindE (getitem rt ps ''operation'') (\<lambda>operation.
     if \<not> in_str_list operation TERRAFORM_VALID_OPERATIONS
     then Inl (PyExn ''ValueError''
            (''Invalid operation: '' @ py_str rt operation
             @ ''. Valid operations: '' @ join '', '' TERRAFORM_VALID_OPERATIONS))
     else
     bindE (getitem rt ps ''working_dir'') (\<lambda>v.
     bindE (make_path v) (\<lambda>working_dir.
     if \<not> path_exists rt working_dir
     then Inl (PyExn ''ValueError''
            (''Working directory does not exist: '' @ path_str rt working_dir))
     else if path_glob rt working_dir ''*.tf'' = [] \<and> operation \<noteq> PStr ''init''
     then Inl (PyExn ''ValueError''
            (''No Terraform files found in: '' @ path_str rt working_dir))
     else Inr ()))))"


record plan_changes =
  add :: int
  change :: int
  destroy :: int

definition plan_rx :: "rx list" where
  "plan_rx = lit ''Plan: '' @ digits_group @ lit '' to add, '' @ digits_group
     @ lit '' to change, '' @ digits_group @ lit '' to destroy''"

definition parse_plan_changes :: "string \<Rightarrow> plan_changes" where
  "parse_plan_changes output =
     (let changes = \<lparr>add = 0, change = 0, destroy = 0\<rparr>
      in case rsearch plan_rx output of
           Some [g1, g2, g3] \<Rightarrow>
             changes\<lparr>add := int_of_digits g1, change := int_of_digits g2,
                      destroy := int_of_digits g3\<rparr>
         | _ \<Rightarrow> changes)"

text \<open>The \<open>plan\<close> branch of \<open>execute\<close>: \<open>result_data['has_changes']\<close>.\<close>

definition has_changes :: "plan_changes \<Rightarrow> bool" where
  "has_changes changes = list_ex (\<lambda>k. k changes > 0) [add, change, destroy]"

section \<open>Notions used to state the properties\<close>

text \<open>A non-empty string of decimal digits.\<close>

definition digits :: "string \<Rightarrow> bool" where
  "digits a \<longleftrightarrow> a \<noteq> [] \<and> list_all is_digit a"

text \<open>
  The text \<open>s\<close> starts with a plan summary \<open>Plan: X to add, Y to change, Z to destroy\<close>,
  and a text has a plan summary when one of its suffixes starts with one.
\<close>

definition plan_summary_at :: "string \<Rightarrow> bool" where
  "plan_summary_at s \<longleftrightarrow>
     (\<exists>a b c t. digits a \<and> digits b \<and> digits c \<and>
        s = ''Plan: '' @ a @ '' to add, '' @ b @ '' to change, '' @ c @ '' to destroy'' @ t)"

definition has_plan_summary :: "string \<Rightarrow> bool" where
  "has_plan_summary text \<longleftrightarrow> (\<exists>pre s. text = pre @ s \<and> plan_summary_at s)"

text \<open>
  An environment for examples: every process ends with the same result, every path
  exists, no file matches a glob pattern, and \<open>repr\<close> is given for plain strings.
\<close>

definition fixed_runtime :: "proc_result \<Rightarrow> runtime" where
  "fixed_runtime pr =
     \<lparr>run_process = (\<lambda>_. Inr pr), path_exists = (\<lambda>_. True), path_str = (\<lambda>p. p),
      path_glob = (\<lambda>_ _. []),
      py_repr = (\<lambda>v. case v of PStr s \<Rightarrow> quoted s | _ \<Rightarrow> ''?''),
      float_of_str = (\<lambda>_. Finite 0), today = ''20240101''\<rparr>"



text \<open>
  A pytest run with two failing tests and 85\% coverage, requested with coverage
  checking and the default threshold.
\<close>

definition pytest_output :: string where
  "pytest_output = ''12 passed, 2 failed, 1 skipped in 3.2s'' @ [CHR 0x0A] @ ''TOTAL 100 15 85%''"

definition pytest_runtime :: runtime where
  "pytest_runtime = fixed_runtime \<lparr>returncode = 1, stdout = pytest_output, stderr = []\<rparr>"

definition pytest_params :: params where
  "pytest_params = [''test_framework'' \<mapsto> PStr ''pytest'', ''project_path'' \<mapsto> PStr ''.'',
                    ''coverage_enabled'' \<mapsto> PBool True]"



text \<open>
  The empty parameter mapping, and a Jest run whose coverage row holds a token that
  \<open>float\<close> rejects.
\<close>

definition no_parameters :: params where
  "no_parameters = Map.empty"

definition jest_runtime :: runtime where
  "jest_runtime = fixed_runtime \<lparr>returncode = 0, stdout = ''All files | 1.2.3 |'', stderr = []\<rparr>"

definition jest_params :: params where
  "jest_params = [''test_framework'' \<mapsto> PStr ''jest'', ''project_path'' \<mapsto> PStr ''.'']"

text \<open>Parameters that name a test framework the command does not support.\<close>

definition mocha_params :: params where
  "mocha_params = [''test_framework'' \<mapsto> PStr ''mocha'', ''project_path'' \<mapsto> PStr ''.'']"




section \<open>Properties of the string and pattern operations\<close>

lemmas rx_defs = maven_rx_def passed_rx_def failed_rx_def skipped_rx_def pytest_coverage_rx_def
  jest_rx_def jest_coverage_rx_def lit_def digits_group_def is_digit_def is_space_def dot_def

text \<open>Substrings, joined lists and decimal numerals.\<close>

lemma contains_prefix: "prefix sub s \<Longrightarrow> contains sub s"
  by (cases s) auto

lemma contains_append: "contains sub (a @ sub @ b)"
  by (induction a) (simp_all add: contains_prefix)

lemma join_lists_member:
  "k \<in> set xs \<Longrightarrow> \<exists>a b. join sep xs = a @ k @ b"
proof (induction sep xs rule: join.induct)
  case (1 sep)
  then show ?case by simp
next
  case (2 sep x)
  then have "join sep [x] = [] @ k @ []" by simp
  then show ?case by blast
next
  case (3 sep x y ys)
  show ?case
  proof (cases "k = x")
    case True
    then have "join sep (x # y # ys) = [] @ k @ (sep @ join sep (y # ys))" by simp
    then show ?thesis by blast
  next
    case False
    with 3 obtain a b where "join sep (y # ys) = a @ k @ b" by auto
    then have "join sep (x # y # ys) = (x @ sep @ a) @ k @ b" by simp
    then show ?thesis by blast
  qed
qed

lemma contains_iff: "contains sub s \<longleftrightarrow> (\<exists>a b. s = a @ sub @ b)"
proof
  assume "contains sub s"
  then show "\<exists>a b. s = a @ sub @ b"
  proof (induction s)
    case Nil
    then show ?case by simp
  next
    case (Cons c cs)
    from Cons.prems have "prefix sub (c # cs) \<or> contains sub cs" by simp
    then show ?case
    proof
      assume "prefix sub (c # cs)"
      then obtain b where "c # cs = [] @ sub @ b" by (auto simp: prefix_def)
      then show ?thesis by blast
    next
      assume "contains sub cs"
      with Cons.IH obtain a b where "cs = a @ sub @ b" by blast
      then have "c # cs = (c # a) @ sub @ b" by simp
      then show ?thesis by blast
    qed
  qed
next
  assume "\<exists>a b. s = a @ sub @ b"
  then show "contains sub s" by (auto simp: contains_append)
qed

lemma count_str_positive_iff:
  assumes "sub \<noteq> []"
  shows "0 < count_str sub s \<longleftrightarrow> contains sub s"
  using assms by (induction sub s rule: count_str.induct) auto

lemma digit_val_digit_char: "digit_val (digit_char n) = int (n mod 10)"
proof -
  have "k < 10 \<Longrightarrow> digit_val (''0123456789'' ! k) = int k" for k
  proof -
    assume "k < 10"
    then consider "k = 0" | "k = 1" | "k = 2" | "k = 3" | "k = 4" | "k = 5" | "k = 6"
      | "k = 7" | "k = 8" | "k = 9" by atomize_elim arith
    then show ?thesis by cases (simp_all add: digit_val_def)
  qed
  then show ?thesis by (simp add: digit_char_def)
qed

lemma int_of_digits_snoc: "int_of_digits (s @ [c]) = 10 * int_of_digits s + digit_val c"
  by (simp add: int_of_digits_def)

lemma int_of_digits_str_of_nat: "int_of_digits (str_of_nat n) = int n"
proof (induction n rule: str_of_nat.induct)
  case (1 n)
  show ?case
  proof (cases "n < 10")
    case True
    then have "str_of_nat n = [digit_char n]" by (subst str_of_nat.simps) simp
    with True show ?thesis
      by (simp add: int_of_digits_def digit_val_digit_char del: str_of_nat.simps)
  next
    case False
    from 1 [OF False] have "int_of_digits (str_of_nat (n div 10)) = int (n div 10)" .
    moreover have "str_of_nat n = str_of_nat (n div 10) @ [digit_char n]"
      using False by (subst str_of_nat.simps) simp
    moreover have "10 * int (n div 10) + int (n mod 10) = int n"
    proof -
      have "10 * (n div 10) + n mod 10 = n" by simp
      then have "int (10 * (n div 10) + n mod 10) = int n" by (rule arg_cong)
      then show ?thesis by (simp only: of_nat_add of_nat_mult of_nat_numeral)
    qed
    ultimately show ?thesis
      by (simp add: int_of_digits_snoc digit_val_digit_char del: str_of_nat.simps)
  qed
qed

lemma str_of_nat_digits: "digits (str_of_nat n)"
proof (induction n rule: str_of_nat.induct)
  case (1 n)
  have d: "is_digit (digit_char k)" for k
  proof -
    have "k mod 10 < 10" by simp
    then consider "k mod 10 = 0" | "k mod 10 = 1" | "k mod 10 = 2" | "k mod 10 = 3"
      | "k mod 10 = 4" | "k mod 10 = 5" | "k mod 10 = 6" | "k mod 10 = 7" | "k mod 10 = 8"
      | "k mod 10 = 9" by atomize_elim arith
    then show ?thesis by cases (simp_all add: digit_char_def is_digit_def)
  qed
  show ?case
  proof (cases "n < 10")
    case True
    then have "str_of_nat n = [digit_char n]" by (subst str_of_nat.simps) simp
    then show ?thesis by (simp add: digits_def d del: str_of_nat.simps)
  next
    case False
    from 1 [OF False] have "digits (str_of_nat (n div 10))" .
    moreover have "str_of_nat n = str_of_nat (n div 10) @ [digit_char n]"
      using False by (subst str_of_nat.simps) simp
    ultimately show ?thesis by (simp add: digits_def d del: str_of_nat.simps)
  qed
qed

lemma rmatch_lit:
  "rmatch (lit l @ r) s (d, None) =
     (if prefix l s then rmatch r (drop (length l) s) (d, None) else None)"
proof (induction l arbitrary: s)
  case Nil
  then show ?case by (simp add: lit_def)
next
  case (Cons a l)
  show ?case
  proof (cases s)
    case Nil
    then show ?thesis by (simp add: lit_def)
  next
    case (Cons c cs)
    with Cons.IH [of cs] show ?thesis by (auto simp: lit_def)
  qed
qed

lemma lit_rejects:
  assumes "l \<noteq> []" "\<not> p (hd l)"
  shows "p c \<Longrightarrow> rmatch (lit l @ r) (c # s) g = None"
  using assms by (cases l) (auto simp: lit_def)

lemma plus_close_greedy:
  assumes H: "\<And>c s g. p c \<Longrightarrow> rmatch r (c # s) g = None"
  shows "rmatch (Plus p # Close # r) s (d, Some acc) =
     (if takeWhile p s = [] then None
      else rmatch r (dropWhile p s) (d @ [acc @ takeWhile p s], None))"
proof (induction s arbitrary: acc)
  case Nil
  then show ?case by simp
next
  case (Cons c cs)
  show ?case
  proof (cases "p c")
    case False
    then show ?thesis by simp
  next
    case pc: True
    show ?thesis
    proof (cases "takeWhile p cs = []")
      case True
      then have "cs = [] \<or> \<not> p (hd cs)" by (cases cs) (auto split: if_splits)
      then have dw: "dropWhile p cs = cs" by (cases cs) auto
      from True pc dw show ?thesis by (simp add: Cons.IH)
    next
      case False
      then obtain x xs where cs: "cs = x # xs" and px: "p x" by (cases cs) (auto split: if_splits)
      have fb: "rmatch r cs g = None" for g using H [OF px] cs by simp
      from False pc show ?thesis by (simp add: Cons.IH fb split: option.split)
    qed
  qed
qed


lemma digits_group_lit:
  assumes "l \<noteq> []" "\<not> is_digit (hd l)"
  shows "rmatch (digits_group @ lit l @ r) s (d, None) =
     (if takeWhile is_digit s = [] then None
      else rmatch (lit l @ r) (dropWhile is_digit s) (d @ [takeWhile is_digit s], None))"
proof -
  have H: "is_digit c \<Longrightarrow> rmatch (lit l @ r) (c # t) g = None" for c t g
    using assms lit_rejects [of l is_digit c r t g] by simp
  show ?thesis
    using plus_close_greedy [of is_digit "lit l @ r" s d "[]", OF H]
    by (simp add: digits_group_def)
qed


lemma rsearch_None_iff:
  "rsearch r s = None \<longleftrightarrow> (\<forall>k\<le>length s. rmatch r (drop k s) ([], None) = None)"
proof (induction s)
  case Nil
  then show ?case by simp
next
  case (Cons c cs)
  show ?case
  proof
    assume a: "rsearch r (c # cs) = None"
    then have h: "rmatch r (c # cs) ([], None) = None" and t: "rsearch r cs = None"
      by (auto split: option.splits)
    show "\<forall>k\<le>length (c # cs). rmatch r (drop k (c # cs)) ([], None) = None"
    proof (intro allI impI)
      fix k assume "k \<le> length (c # cs)"
      then show "rmatch r (drop k (c # cs)) ([], None) = None"
        using h t Cons.IH by (cases k) auto
    qed
  next
    assume a: "\<forall>k\<le>length (c # cs). rmatch r (drop k (c # cs)) ([], None) = None"
    from a [rule_format, of 0] have h: "rmatch r (c # cs) ([], None) = None" by simp
    have "\<forall>k\<le>length cs. rmatch r (drop k cs) ([], None) = None"
    proof (intro allI impI)
      fix k assume "k \<le> length cs"
      with a [rule_format, of "Suc k"] show "rmatch r (drop k cs) ([], None) = None" by simp
    qed
    with Cons.IH h show "rsearch r (c # cs) = None" by simp
  qed
qed

lemma rsearch_skip:
  "(\<forall>k<length pre. rmatch r (drop k (pre @ s)) ([], None) = None)
   \<Longrightarrow> rsearch r (pre @ s) = rsearch r s"
proof (induction pre)
  case Nil
  then show ?case by simp
next
  case (Cons c pre)
  from Cons.prems [rule_format, of 0] have h: "rmatch r (c # pre @ s) ([], None) = None" by simp
  have "\<forall>k<length pre. rmatch r (drop k (pre @ s)) ([], None) = None"
  proof (intro allI impI)
    fix k assume "k < length pre"
    with Cons.prems [rule_format, of "Suc k"] show "rmatch r (drop k (pre @ s)) ([], None) = None"
      by simp
  qed
  with Cons.IH h show ?case by simp
qed

lemma rsearch_here:
  "rmatch r s ([], None) = Some g \<Longrightarrow> rsearch r s = Some g"
  by (cases s) auto

lemma lit_match_iff:
  "rmatch (lit l @ r) s (d, None) = Some g \<longleftrightarrow>
     (\<exists>t. s = l @ t \<and> rmatch r t (d, None) = Some g)"
  by (auto simp: rmatch_lit prefix_def)

lemma lit_end_match_iff:
  "rmatch (lit l) s (d, None) = Some g \<longleftrightarrow> (\<exists>t. s = l @ t \<and> g = d)"
  using lit_match_iff [of l "[]" s d g] by auto

lemma takeWhile_digits_lit:
  assumes "list_all is_digit a" "l \<noteq> []" "\<not> is_digit (hd l)"
  shows "takeWhile is_digit (a @ l @ t) = a" "dropWhile is_digit (a @ l @ t) = l @ t"
proof -
  from assms(2,3) have "takeWhile is_digit (l @ t) = []" by (cases l) auto
  moreover from assms(2,3) have "dropWhile is_digit (l @ t) = l @ t" by (cases l) auto
  moreover from assms(1) have "\<forall>x\<in>set a. is_digit x" by (simp add: list_all_iff)
  ultimately show "takeWhile is_digit (a @ l @ t) = a" "dropWhile is_digit (a @ l @ t) = l @ t"
    by simp_all
qed

lemma digits_lit_match_iff:
  assumes "l \<noteq> []" "\<not> is_digit (hd l)"
  shows "rmatch (digits_group @ lit l @ r) s (d, None) = Some g \<longleftrightarrow>
     (\<exists>a t. a \<noteq> [] \<and> list_all is_digit a \<and> s = a @ l @ t
            \<and> rmatch r t (d @ [a], None) = Some g)"
proof
  assume m: "rmatch (digits_group @ lit l @ r) s (d, None) = Some g"
  let ?a = "takeWhile is_digit s" and ?s' = "dropWhile is_digit s"
  from m have ne: "?a \<noteq> []" and m': "rmatch (lit l @ r) ?s' (d @ [?a], None) = Some g"
    by (auto simp: digits_group_lit [OF assms] split: if_splits)
  from m' obtain t where t: "?s' = l @ t" and mt: "rmatch r t (d @ [?a], None) = Some g"
    by (auto simp: lit_match_iff)
  have "s = ?a @ ?s'" by simp
  with t have s: "s = ?a @ l @ t" by simp
  have "list_all is_digit ?a" by (simp add: list_all_iff) (meson set_takeWhileD)
  with ne s mt show "\<exists>a t. a \<noteq> [] \<and> list_all is_digit a \<and> s = a @ l @ t
            \<and> rmatch r t (d @ [a], None) = Some g" by blast
next
  assume "\<exists>a t. a \<noteq> [] \<and> list_all is_digit a \<and> s = a @ l @ t
            \<and> rmatch r t (d @ [a], None) = Some g"
  then obtain a t where a: "a \<noteq> []" "list_all is_digit a" and s: "s = a @ l @ t"
    and mt: "rmatch r t (d @ [a], None) = Some g" by blast
  from takeWhile_digits_lit [OF a(2) assms, of t] s
  have tw: "takeWhile is_digit s = a" and dw: "dropWhile is_digit s = l @ t" by simp_all
  show "rmatch (digits_group @ lit l @ r) s (d, None) = Some g"
    using a(1) mt by (simp add: digits_group_lit [OF assms] tw dw lit_match_iff)
qed

lemma digits_lit_end_match_iff:
  assumes "l \<noteq> []" "\<not> is_digit (hd l)"
  shows "rmatch (digits_group @ lit l) s (d, None) = Some g \<longleftrightarrow>
     (\<exists>a t. a \<noteq> [] \<and> list_all is_digit a \<and> s = a @ l @ t \<and> g = d @ [a])"
  using digits_lit_match_iff [OF assms, of "[]" s d g] by auto

lemma plan_match_iff:
  "rmatch plan_rx s ([], None) = Some g \<longleftrightarrow>
     (\<exists>a b c t. digits a \<and> digits b \<and> digits c \<and> g = [a, b, c]
        \<and> s = ''Plan: '' @ a @ '' to add, '' @ b @ '' to change, '' @ c @ '' to destroy'' @ t)"
proof -
  have n: "\<not> is_digit CHR '' ''" by (simp add: is_digit_def)
  show ?thesis
    unfolding plan_rx_def digits_def
    apply (simp only: lit_match_iff digits_lit_match_iff digits_lit_end_match_iff
        list.sel n not_False_eq_True list.distinct simp_thms append_Nil)
    apply (rule iffI)
     apply (elim exE conjE)
     apply (intro exI conjI; (assumption | simp))
     apply (elim exE conjE)
     apply (intro exI conjI; (assumption | simp))
    done
qed



section \<open>Properties of the test-result parser\<close>

text \<open>
  C10. There is a raw output for which the Maven/Gradle parser yields a negative
  \<open>tests_passed\<close>: the summary line \<open>Tests run: 1, Failures: 2, Errors: 0, Skipped: 0\<close>
  gives \<open>tests_passed = -1\<close>, for \<open>maven\<close> and for \<open>gradle\<close>, since
  \<open>run - failures - errors - skipped\<close> is not clamped.
\<close>

theorem maven_tests_passed_negative:
  "parse_test_results rt (PStr ''maven'') ''Tests run: 1, Failures: 2, Errors: 0, Skipped: 0''
     = Inr \<lparr>tests_total = 1, tests_passed = - 1, tests_failed = 2, tests_skipped = 0,
            coverage_percentage = None, duration_seconds = None\<rparr>
   \<and> parse_test_results rt (PStr ''gradle'') ''Tests run: 1, Failures: 2, Errors: 0, Skipped: 0''
     = Inr \<lparr>tests_total = 1, tests_passed = - 1, tests_failed = 2, tests_skipped = 0,
            coverage_percentage = None, duration_seconds = None\<rparr>
   \<and> (\<exists>out r. parse_test_results rt (PStr ''maven'') out = Inr r \<and> tests_passed r < 0)"
proof -
  have m: "parse_test_results rt (PStr ''maven'')
             ''Tests run: 1, Failures: 2, Errors: 0, Skipped: 0''
           = Inr \<lparr>tests_total = 1, tests_passed = - 1, tests_failed = 2, tests_skipped = 0,
                  coverage_percentage = None, duration_seconds = None\<rparr>"
    by (simp add: parse_test_results_def in_str_list_def rx_defs int_of_digits_def
        digit_val_def)
  have g: "parse_test_results rt (PStr ''gradle'')
             ''Tests run: 1, Failures: 2, Errors: 0, Skipped: 0''
           = Inr \<lparr>tests_total = 1, tests_passed = - 1, tests_failed = 2, tests_skipped = 0,
                  coverage_percentage = None, duration_seconds = None\<rparr>"
    by (simp add: parse_test_results_def in_str_list_def rx_defs int_of_digits_def
        digit_val_def)
  from m have "\<exists>out r. parse_test_results rt (PStr ''maven'') out = Inr r \<and> tests_passed r < 0"
    by (intro exI conjI) (assumption, simp)
  with m g show ?thesis by blast
qed






lemma parse_gotest_branch:
  "\<exists>r. parse_test_results rt (PStr ''gotest'') out = Inr r
     \<and> tests_total r = tests_passed r + tests_failed r + tests_skipped r
     \<and> (tests_failed r = 0 \<or> tests_failed r = 1)
     \<and> (contains ''PASS'' out \<longrightarrow> tests_failed r = 0
          \<and> tests_passed r = int (count_str [CHR 0x09, CHR ''o'', CHR ''k'', CHR 0x09] out))"
  by (simp add: parse_test_results_def Let_def in_str_list_def)










text \<open>
  C9. For every raw output the Go-test parser yields \<open>tests_failed\<close> equal to 0 or 1,
  and whenever the output contains \<open>PASS\<close> it yields \<open>tests_failed = 0\<close> and
  \<open>tests_passed\<close> equal to \<open>test_output.count('\tok\t')\<close>, also when the output
  contains \<open>FAIL\<close>.
\<close>

theorem gotest_failed_at_most_one:
  "\<exists>r. parse_test_results rt (PStr ''gotest'') out = Inr r
     \<and> (tests_failed r = 0 \<or> tests_failed r = 1)
     \<and> (contains ''PASS'' out \<longrightarrow> tests_failed r = 0
          \<and> tests_passed r = int (count_str [CHR 0x09, CHR ''o'', CHR ''k'', CHR 0x09] out))"
  using parse_gotest_branch [of rt out] by blast

text \<open>\<open>str.count\<close> counts occurrences that do not overlap.\<close>

lemma count_str_does_not_overlap:
  "count_str [CHR 0x09, CHR ''o'', CHR ''k'', CHR 0x09]
     [CHR 0x09, CHR ''o'', CHR ''k'', CHR 0x09, CHR ''o'', CHR ''k'', CHR 0x09] = 1"
  by simp

text \<open>A verbose run with a passing and a failing package is reported without failures.\<close>

theorem gotest_failed_at_most_one_witness:
  "(let out = ''--- PASS: TestA (0.00s)'' @ [CHR 0x0A] @ ''--- FAIL: TestB (0.00s)''
            @ [CHR 0x0A] @ ''FAIL'' @ [CHR 0x09] @ ''pkg/b'' @ [CHR 0x09] @ ''0.003s''
            @ [CHR 0x0A, CHR 0x09] @ ''ok'' @ [CHR 0x09] @ ''pkg/a''
    in contains ''PASS'' out \<and> contains ''FAIL'' out
       \<and> (\<exists>r. parse_test_results (fixed_runtime \<lparr>returncode = 1, stdout = out, stderr = []\<rparr>)
                 (PStr ''gotest'') out = Inr r
             \<and> tests_failed r = 0 \<and> tests_passed r = 1))"
proof -
  let ?out = "''--- PASS: TestA (0.00s)'' @ [CHR 0x0A] @ ''--- FAIL: TestB (0.00s)''
            @ [CHR 0x0A] @ ''FAIL'' @ [CHR 0x09] @ ''pkg/b'' @ [CHR 0x09] @ ''0.003s''
            @ [CHR 0x0A, CHR 0x09] @ ''ok'' @ [CHR 0x09] @ ''pkg/a''"
  have p: "contains ''PASS'' ?out" by simp
  have f: "contains ''FAIL'' ?out" by simp
  have c: "count_str [CHR 0x09, CHR ''o'', CHR ''k'', CHR 0x09] ?out = 1" by simp
  from gotest_failed_at_most_one
         [of "fixed_runtime \<lparr>returncode = 1, stdout = ?out, stderr = []\<rparr>" ?out] p c
  have "\<exists>r. parse_test_results (fixed_runtime \<lparr>returncode = 1, stdout = ?out, stderr = []\<rparr>)
                 (PStr ''gotest'') ?out = Inr r
             \<and> tests_failed r = 0 \<and> tests_passed r = 1"
    by auto
  with p f show ?thesis unfolding Let_def by blast
qed

section \<open>Properties of the plan summary parser\<close>

lemma plan_summary_at_iff: "plan_summary_at s \<longleftrightarrow> rmatch plan_rx s ([], None) \<noteq> None"
proof
  assume "plan_summary_at s"
  then obtain a b c t where "digits a" "digits b" "digits c"
    "s = ''Plan: '' @ a @ '' to add, '' @ b @ '' to change, '' @ c @ '' to destroy'' @ t"
    unfolding plan_summary_at_def by blast
  then have "rmatch plan_rx s ([], None) = Some [a, b, c]"
    using plan_match_iff [of s "[a, b, c]"] by blast
  then show "rmatch plan_rx s ([], None) \<noteq> None" by simp
next
  assume "rmatch plan_rx s ([], None) \<noteq> None"
  then obtain g where "rmatch plan_rx s ([], None) = Some g" by blast
  then obtain a b c t where "digits a" "digits b" "digits c"
    "s = ''Plan: '' @ a @ '' to add, '' @ b @ '' to change, '' @ c @ '' to destroy'' @ t"
    using plan_match_iff [of s g] by blast
  then show "plan_summary_at s" unfolding plan_summary_at_def by blast
qed

lemma no_summary_before:
  assumes "CHR ''P'' \<notin> set pre"
  shows "\<forall>k<length pre. \<not> plan_summary_at (drop k (pre @ s))"
proof (intro allI impI)
  fix k assume k: "k < length pre"
  then have "drop k (pre @ s) = pre ! k # drop (Suc k) (pre @ s)"
    by (simp add: Cons_nth_drop_Suc nth_append)
  moreover have "pre ! k \<noteq> CHR ''P''" using assms k by (metis nth_mem)
  ultimately show "\<not> plan_summary_at (drop k (pre @ s))"
    by (auto simp: plan_summary_at_def)
qed

lemma has_plan_summary_iff: "has_plan_summary text \<longleftrightarrow> rsearch plan_rx text \<noteq> None"
proof -
  have "has_plan_summary text \<longleftrightarrow> (\<exists>k\<le>length text. plan_summary_at (drop k text))"
  proof
    assume "has_plan_summary text"
    then obtain pre s where t: "text = pre @ s" and p: "plan_summary_at s"
      by (auto simp: has_plan_summary_def)
    then have "length pre \<le> length text \<and> plan_summary_at (drop (length pre) text)" by simp
    then show "\<exists>k\<le>length text. plan_summary_at (drop k text)" by blast
  next
    assume "\<exists>k\<le>length text. plan_summary_at (drop k text)"
    then obtain k where "plan_summary_at (drop k text)" by blast
    moreover have "text = take k text @ drop k text" by simp
    ultimately show "has_plan_summary text" unfolding has_plan_summary_def by blast
  qed
  then show ?thesis by (auto simp: rsearch_None_iff plan_summary_at_iff)
qed

lemma parse_plan_changes_first:
  assumes tx: "text = pre @ ''Plan: '' @ a @ '' to add, '' @ b @ '' to change, '' @ c
                   @ '' to destroy'' @ post"
    and d: "digits a" "digits b" "digits c"
    and first: "\<forall>k<length pre. \<not> plan_summary_at (drop k text)"
  shows "parse_plan_changes text =
           \<lparr>add = int_of_digits a, change = int_of_digits b, destroy = int_of_digits c\<rparr>"
proof -
  let ?s = "''Plan: '' @ a @ '' to add, '' @ b @ '' to change, '' @ c @ '' to destroy'' @ post"
  have "rmatch plan_rx ?s ([], None) = Some [a, b, c]"
    using d plan_match_iff [of ?s "[a, b, c]"] by blast
  then have "rsearch plan_rx ?s = Some [a, b, c]" by (rule rsearch_here)
  moreover have "rsearch plan_rx (pre @ ?s) = rsearch plan_rx ?s"
    using first tx by (intro rsearch_skip) (simp add: plan_summary_at_iff)
  ultimately show ?thesis by (simp add: parse_plan_changes_def tx)
qed

lemma parse_plan_changes_none:
  assumes "\<not> has_plan_summary text"
  shows "parse_plan_changes text = \<lparr>add = 0, change = 0, destroy = 0\<rparr>"
  using assms by (simp add: has_plan_summary_iff parse_plan_changes_def)

lemma digits_simps: "digits ''3''" "digits ''1''" "digits ''0''" "digits ''9''"
  by (simp_all add: digits_def is_digit_def)

text \<open>
  C7, as amended. When the first plan summary of the raw text is
  \<open>Plan: 3 to add, 1 to change, 0 to destroy\<close> (no plan summary starts before it), the
  plan-change parsing yields add 3, change 1, destroy 0 and \<open>has_changes\<close> is true; when
  the raw text has no plan summary, it yields three zeros and \<open>has_changes\<close> is false.
\<close>

theorem plan_changes_of_first_summary:
  "(text = pre @ ''Plan: 3 to add, 1 to change, 0 to destroy'' @ post
      \<and> (\<forall>k<length pre. \<not> plan_summary_at (drop k text))
    \<longrightarrow> parse_plan_changes text = \<lparr>add = 3, change = 1, destroy = 0\<rparr>
        \<and> has_changes (parse_plan_changes text))
   \<and> (\<not> has_plan_summary text
    \<longrightarrow> parse_plan_changes text = \<lparr>add = 0, change = 0, destroy = 0\<rparr>
        \<and> \<not> has_changes (parse_plan_changes text))"
proof (intro conjI impI)
  assume a: "text = pre @ ''Plan: 3 to add, 1 to change, 0 to destroy'' @ post
      \<and> (\<forall>k<length pre. \<not> plan_summary_at (drop k text))"
  then have "text = pre @ ''Plan: 3 to add, 1 to change, 0 to destroy'' @ post"
    by (rule conjunct1)
  then have t: "text = pre @ ''Plan: '' @ ''3'' @ '' to add, '' @ ''1'' @ '' to change, '' @ ''0''
                   @ '' to destroy'' @ post" by simp
  from a have f: "\<forall>k<length pre. \<not> plan_summary_at (drop k text)" by (rule conjunct2)
  have "parse_plan_changes text =
      \<lparr>add = int_of_digits ''3'', change = int_of_digits ''1'', destroy = int_of_digits ''0''\<rparr>"
    by (rule parse_plan_changes_first [OF t _ _ _ f]) (simp_all add: digits_simps)
  then show p: "parse_plan_changes text = \<lparr>add = 3, change = 1, destroy = 0\<rparr>"
    by (simp add: int_of_digits_def digit_val_def)
  show "has_changes (parse_plan_changes text)"
    by (simp add: p has_changes_def)
next
  assume n: "\<not> has_plan_summary text"
  then show p: "parse_plan_changes text = \<lparr>add = 0, change = 0, destroy = 0\<rparr>"
    by (rule parse_plan_changes_none)
  show "\<not> has_changes (parse_plan_changes text)"
    by (simp add: p has_changes_def)
qed

text \<open>Both cases on Terraform output.\<close>

theorem plan_changes_of_first_summary_witness:
  "(let text = ''Terraform will perform the following actions:'' @ [CHR 0x0A]
             @ ''Plan: 3 to add, 1 to change, 0 to destroy'' @ ''.''
    in parse_plan_changes text = \<lparr>add = 3, change = 1, destroy = 0\<rparr>
       \<and> has_changes (parse_plan_changes text))
   \<and> \<not> has_plan_summary ''No changes. Your infrastructure matches the configuration.''
   \<and> parse_plan_changes ''No changes. Your infrastructure matches the configuration.''
       = \<lparr>add = 0, change = 0, destroy = 0\<rparr>
   \<and> \<not> has_changes
         (parse_plan_changes ''No changes. Your infrastructure matches the configuration.'')"
proof -
  let ?pre = "''Terraform will perform the following actions:'' @ [CHR 0x0A]"
  let ?text = "?pre @ ''Plan: 3 to add, 1 to change, 0 to destroy'' @ ''.''"
  have f: "\<forall>k<length ?pre. \<not> plan_summary_at (drop k ?text)"
    by (rule no_summary_before) simp
  have n: "\<not> has_plan_summary ''No changes. Your infrastructure matches the configuration.''"
    by (simp add: has_plan_summary_iff plan_rx_def lit_def digits_group_def is_digit_def)
  have A: "parse_plan_changes ?text = \<lparr>add = 3, change = 1, destroy = 0\<rparr>
        \<and> has_changes (parse_plan_changes ?text)"
    by (rule mp [OF conjunct1 [OF plan_changes_of_first_summary [of ?text ?pre "''.''"]]])
      (intro conjI refl f)
  have B: "parse_plan_changes ''No changes. Your infrastructure matches the configuration.''
             = \<lparr>add = 0, change = 0, destroy = 0\<rparr>
        \<and> \<not> has_changes
              (parse_plan_changes ''No changes. Your infrastructure matches the configuration.'')"
    by (rule mp [OF conjunct2 [OF plan_changes_of_first_summary [of _ "[]" "[]"]]]) (rule n)
  from A B n show ?thesis by (simp add: Let_def has_changes_def)
qed

text \<open>
  The claim as first stated fails on a text that contains the line after another plan
  summary: \<open>re.search\<close> returns the first match.
\<close>

theorem plan_line_not_first_counterexample:
  "contains ''Plan: 3 to add, 1 to change, 0 to destroy''
     (''Plan: 9 to add, 9 to change, 9 to destroy'' @ [CHR 0x0A]
        @ ''Plan: 3 to add, 1 to change, 0 to destroy'')
   \<and> parse_plan_changes
       (''Plan: 9 to add, 9 to change, 9 to destroy'' @ [CHR 0x0A]
          @ ''Plan: 3 to add, 1 to change, 0 to destroy'')
     = \<lparr>add = 9, change = 9, destroy = 9\<rparr>
   \<and> parse_plan_changes
       (''Plan: 9 to add, 9 to change, 9 to destroy'' @ [CHR 0x0A]
          @ ''Plan: 3 to add, 1 to change, 0 to destroy'')
     \<noteq> \<lparr>add = 3, change = 1, destroy = 0\<rparr>"
  by (simp add: parse_plan_changes_def plan_rx_def lit_def digits_group_def is_digit_def
      int_of_digits_def digit_val_def)

section \<open>Properties of the test command\<close>

lemma TestCommand_execute_returns:
  assumes fw: "ps ''test_framework'' = Some framework"
    and pp: "ps ''project_path'' = Some (PStr path)"
    and cmd: "prepare_test_command rt ps = Inr test_command"
    and pr: "run_process rt (Shell test_command path) = Inr process_result"
    and res: "parse_test_results rt framework (stdout process_result @ stderr process_result)
              = Inr results"
    and chk: "check_coverage_threshold rt ps results = Inr check"
  shows "TestCommand_execute rt ps =
    (Inr \<lparr>success = (tests_failed results = 0
                      \<and> (case check of Some c \<Rightarrow> passed c | None \<Rightarrow> True)),
          message = generate_result_message rt results check,
          output_data = Some \<lparr>test_framework = framework, project_path = path_str rt path,
                               command_executed = test_command, test_results = results,
                               coverage_check = check\<rparr>,
          error_details = None\<rparr>,
     [Shell test_command path])"
  using assms
  by (simp add: TestCommand_execute_def bindIO_def liftE_def returnIO_def getitem_def bindE_def
      make_path_def execute_tests_def subprocess_run_def Let_def)








lemma pytest_example_command:
  "prepare_test_command pytest_runtime pytest_params
     = Inr ''pytest --cov --cov-report=term --cov-report=html''"
  by (simp add: prepare_test_command_def pytest_params_def bindE_def getitem_def
      default_command_def in_dict_keys_def DEFAULT_TEST_COMMANDS_def get_parameter_def
      truthy_def Let_def)

lemma pytest_example_results:
  "parse_test_results pytest_runtime (PStr ''pytest'') pytest_output
     = Inr \<lparr>tests_total = 15, tests_passed = 12, tests_failed = 2, tests_skipped = 1,
            coverage_percentage = Some (NInt 85), duration_seconds = None\<rparr>"
  by (simp add: parse_test_results_def in_str_list_def pytest_output_def first_int_def rx_defs
      int_of_digits_def digit_val_def)

lemma pytest_example_process:
  "run_process pytest_runtime c = Inr \<lparr>returncode = 1, stdout = pytest_output, stderr = []\<rparr>"
  by (simp add: pytest_runtime_def fixed_runtime_def)


text \<open>
  C3 at the pytest example: the envelope of a test run that fails on its metrics has
  \<open>success = False\<close>, a data payload, and \<open>error_details = None\<close>.
\<close>

theorem failed_tests_leave_error_details_empty:
  "\<exists>result calls.
     construct_and_run (TestCommand_validate_parameters pytest_runtime)
       (TestCommand_execute pytest_runtime) pytest_params = (Inr result, calls)
     \<and> \<not> success result \<and> error_details result = None \<and> output_data result \<noteq> None"
proof -
  have v: "TestCommand_validate_parameters pytest_runtime pytest_params = Inr ()"
    by (simp add: TestCommand_validate_parameters_def require_parameters_def pytest_params_def
        bindE_def getitem_def in_dict_keys_def DEFAULT_TEST_COMMANDS_def make_path_def
        pytest_runtime_def fixed_runtime_def)
  have chk: "check_coverage_threshold pytest_runtime pytest_params
      \<lparr>tests_total = 15, tests_passed = 12, tests_failed = 2, tests_skipped = 1,
       coverage_percentage = Some (NInt 85), duration_seconds = None\<rparr>
     = Inr (Some \<lparr>enabled = True, passed = True, threshold = PInt 80,
                  actual = Some (NInt 85),
                  check_message = ''Coverage 85% meets threshold 80%''\<rparr>)"
    by (simp add: check_coverage_threshold_def pytest_params_def get_parameter_def truthy_def
        py_ge_def as_number_def num_value_def bindE_def Let_def num_str_def py_str_def
        str_of_int_def digit_char_def)
  have p: "parse_test_results pytest_runtime (PStr ''pytest'')
              (stdout \<lparr>returncode = 1, stdout = pytest_output, stderr = []\<rparr>
               @ stderr \<lparr>returncode = 1, stdout = pytest_output, stderr = []\<rparr>)
            = Inr \<lparr>tests_total = 15, tests_passed = 12, tests_failed = 2, tests_skipped = 1,
                   coverage_percentage = Some (NInt 85), duration_seconds = None\<rparr>"
    by (simp add: pytest_example_results)
  have h1: "pytest_params ''test_framework'' = Some (PStr ''pytest'')"
    by (simp add: pytest_params_def)
  have h2: "pytest_params ''project_path'' = Some (PStr ''.'')"
    by (simp add: pytest_params_def)
  note ex = TestCommand_execute_returns [OF h1 h2 pytest_example_command
      pytest_example_process p chk]
  show ?thesis
    by (simp add: construct_and_run_def BaseCommand_init_def v bindE_def ex run_def)
qed

section \<open>The exit code of the process\<close>






















section \<open>Properties of \<open>BaseCommand\<close>\<close>

lemma require_parameters_missing:
  assumes "\<exists>k\<in>set parameter_names. ps k = None"
  shows "require_parameters ps parameter_names =
     Inl (PyExn ''ValueError'' (''Missing required parameters: ''
            @ join '', '' (filter (\<lambda>k. ps k = None) parameter_names)))"
proof -
  from assms have "filter (\<lambda>k. ps k = None) parameter_names \<noteq> []"
    by (auto simp: filter_empty_conv)
  then show ?thesis by (simp add: require_parameters_def Let_def)
qed

lemma require_parameters_present:
  assumes "\<forall>k\<in>set parameter_names. ps k \<noteq> None"
  shows "require_parameters ps parameter_names = Inr ()"
proof -
  from assms have "filter (\<lambda>k. ps k = None) parameter_names = []"
    by (auto simp: filter_empty_conv)
  then show ?thesis by (simp add: require_parameters_def Let_def)
qed

lemma construct_and_run_invalid:
  "validate_parameters ps = Inl e \<Longrightarrow>
   construct_and_run validate_parameters execute ps = (Inl e, [])"
  by (simp add: construct_and_run_def BaseCommand_init_def bindE_def)

lemma construct_and_run_valid:
  "validate_parameters ps = Inr () \<Longrightarrow>
   construct_and_run validate_parameters execute ps =
     (Inr (fst (run (execute ps))), snd (run (execute ps)))"
  by (simp add: construct_and_run_def BaseCommand_init_def bindE_def split: prod.split)

lemma run_raised:
  "execute = (Inl e, calls) \<Longrightarrow>
   run execute = (\<lparr>success = False, message = ''Command execution failed: '' @ exn_type e,
                  output_data = None, error_details = Some (exn_str e)\<rparr>, calls)"
  by (simp add: run_def)

lemma run_returned: "execute = (Inr result, calls) \<Longrightarrow> run execute = (result, calls)"
  by (simp add: run_def)

lemma missing_parameter_listed:
  assumes "k \<in> set parameter_names" "ps k = None"
  shows "contains k (join '', '' (filter (\<lambda>k. ps k = None) parameter_names))"
proof -
  from assms have "k \<in> set (filter (\<lambda>k. ps k = None) parameter_names)" by simp
  from join_lists_member [OF this, of "'', ''"] obtain a b
    where "join '', '' (filter (\<lambda>k. ps k = None) parameter_names) = a @ k @ b" by blast
  then show ?thesis by (simp only: contains_append)
qed

lemma TestCommand_missing:
  assumes "ps ''test_framework'' = None \<or> ps ''project_path'' = None"
  shows "construct_and_run (TestCommand_validate_parameters rt) execute ps =
    (Inl (PyExn ''ValueError'' (''Missing required parameters: ''
       @ join '', '' (filter (\<lambda>k. ps k = None) [''test_framework'', ''project_path'']))), [])"
proof -
  from assms have "\<exists>k\<in>set [''test_framework'', ''project_path'']. ps k = None" by auto
  from require_parameters_missing [OF this]
  have "TestCommand_validate_parameters rt ps =
    Inl (PyExn ''ValueError'' (''Missing required parameters: ''
       @ join '', '' (filter (\<lambda>k. ps k = None) [''test_framework'', ''project_path''])))"
    by (simp only: TestCommand_validate_parameters_def bindE_def sum.case)
  then show ?thesis by (rule construct_and_run_invalid)
qed

lemma BuildCommand_missing:
  assumes "ps ''build_tool'' = None \<or> ps ''project_path'' = None"
  shows "construct_and_run (BuildCommand_validate_parameters rt) execute ps =
    (Inl (PyExn ''ValueError'' (''Missing required parameters: ''
       @ join '', '' (filter (\<lambda>k. ps k = None) [''build_tool'', ''project_path'']))), [])"
proof -
  from assms have "\<exists>k\<in>set [''build_tool'', ''project_path'']. ps k = None" by auto
  from require_parameters_missing [OF this]
  have "BuildCommand_validate_parameters rt ps =
    Inl (PyExn ''ValueError'' (''Missing required parameters: ''
       @ join '', '' (filter (\<lambda>k. ps k = None) [''build_tool'', ''project_path''])))"
    by (simp only: BuildCommand_validate_parameters_def bindE_def sum.case)
  then show ?thesis by (rule construct_and_run_invalid)
qed

lemma DockerCommand_missing:
  assumes "ps ''operation'' = None \<or> ps ''image_name'' = None"
  shows "construct_and_run (DockerCommand_validate_parameters rt) execute ps =
    (Inl (PyExn ''ValueError'' (''Missing required parameters: ''
       @ join '', '' (filter (\<lambda>k. ps k = None) [''operation'', ''image_name'']))), [])"
proof -
  from assms have "\<exists>k\<in>set [''operation'', ''image_name'']. ps k = None" by auto
  from require_parameters_missing [OF this]
  have "DockerCommand_validate_parameters rt ps =
    Inl (PyExn ''ValueError'' (''Missing required parameters: ''
       @ join '', '' (filter (\<lambda>k. ps k = None) [''operation'', ''image_name''])))"
    by (simp only: DockerCommand_validate_parameters_def bindE_def sum.case)
  then show ?thesis by (rule construct_and_run_invalid)
qed

lemma TerraformCommand_missing:
  assumes "ps ''operation'' = None \<or> ps ''working_dir'' = None"
  shows "construct_and_run (TerraformCommand_validate_parameters rt) execute ps =
    (Inl (PyExn ''ValueError'' (''Missing required parameters: ''
       @ join '', '' (filter (\<lambda>k. ps k = None) [''operation'', ''working_dir'']))), [])"
proof -
  from assms have "\<exists>k\<in>set [''operation'', ''working_dir'']. ps k = None" by auto
  from require_parameters_missing [OF this]
  have "TerraformCommand_validate_parameters rt ps =
    Inl (PyExn ''ValueError'' (''Missing required parameters: ''
       @ join '', '' (filter (\<lambda>k. ps k = None) [''operation'', ''working_dir''])))"
    by (simp only: TerraformCommand_validate_parameters_def bindE_def sum.case)
  then show ?thesis by (rule construct_and_run_invalid)
qed

text \<open>
  C6. When one or more of the required keys are missing from the parameter mapping,
  \<open>_require_parameters\<close> raises one \<open>ValueError\<close> whose text is
  \<open>Missing required parameters:\<close> followed by all the missing keys, joined by commas, so
  that every missing key occurs in it. Constructing any of the four commands then ends
  with that exception before \<open>subprocess.run\<close> was called.
\<close>

theorem missing_parameters_listed_together:
  "((\<exists>k\<in>set parameter_names. ps k = None) \<longrightarrow>
      require_parameters ps parameter_names =
        Inl (PyExn ''ValueError'' (''Missing required parameters: ''
               @ join '', '' (filter (\<lambda>k. ps k = None) parameter_names)))
      \<and> (\<forall>k\<in>set parameter_names. ps k = None \<longrightarrow>
            contains k (join '', '' (filter (\<lambda>k. ps k = None) parameter_names))))
   \<and> (ps ''test_framework'' = None \<or> ps ''project_path'' = None \<longrightarrow>
        construct_and_run (TestCommand_validate_parameters rt) (TestCommand_execute rt) ps =
          (Inl (PyExn ''ValueError'' (''Missing required parameters: ''
             @ join '', '' (filter (\<lambda>k. ps k = None) [''test_framework'', ''project_path'']))),
           []))
   \<and> (ps ''build_tool'' = None \<or> ps ''project_path'' = None \<longrightarrow>
        construct_and_run (BuildCommand_validate_parameters rt) (BuildCommand_execute rt) ps =
          (Inl (PyExn ''ValueError'' (''Missing required parameters: ''
             @ join '', '' (filter (\<lambda>k. ps k = None) [''build_tool'', ''project_path'']))),
           []))
   \<and> (ps ''operation'' = None \<or> ps ''image_name'' = None \<longrightarrow>
        construct_and_run (DockerCommand_validate_parameters rt) docker_execute ps =
          (Inl (PyExn ''ValueError'' (''Missing required parameters: ''
             @ join '', '' (filter (\<lambda>k. ps k = None) [''operation'', ''image_name'']))),
           []))
   \<and> (ps ''operation'' = None \<or> ps ''working_dir'' = None \<longrightarrow>
        construct_and_run (TerraformCommand_validate_parameters rt) terraform_execute ps =
          (Inl (PyExn ''ValueError'' (''Missing required parameters: ''
             @ join '', '' (filter (\<lambda>k. ps k = None) [''operation'', ''working_dir'']))),
           []))"
  using require_parameters_missing [of parameter_names ps] missing_parameter_listed [of _ parameter_names ps]
    TestCommand_missing [of ps rt "TestCommand_execute rt"]
    BuildCommand_missing [of ps rt "BuildCommand_execute rt"]
    DockerCommand_missing [of ps rt docker_execute]
    TerraformCommand_missing [of ps rt terraform_execute]
  by (intro conjI impI ballI) blast+

text \<open>The empty mapping: both keys of the test command are reported in one error.\<close>

theorem missing_parameters_listed_together_witness:
  "no_parameters ''test_framework'' = None \<and> no_parameters ''project_path'' = None
   \<and> require_parameters no_parameters [''test_framework'', ''project_path''] =
       Inl (PyExn ''ValueError''
              ''Missing required parameters: test_framework, project_path'')
   \<and> contains ''test_framework'' ''test_framework, project_path''
   \<and> contains ''project_path'' ''test_framework, project_path''
   \<and> construct_and_run (TestCommand_validate_parameters pytest_runtime)
        (TestCommand_execute pytest_runtime) no_parameters =
       (Inl (PyExn ''ValueError''
               ''Missing required parameters: test_framework, project_path''), [])"
proof -
  note T = missing_parameters_listed_together
    [of "[''test_framework'', ''project_path'']" no_parameters pytest_runtime]
  have n: "no_parameters k = None" for k by (simp add: no_parameters_def)
  have f: "filter (\<lambda>k. no_parameters k = None) [''test_framework'', ''project_path'']
           = [''test_framework'', ''project_path'']"
    by (simp add: n)
  have e: "\<exists>k\<in>set [''test_framework'', ''project_path'']. no_parameters k = None"
    using n by auto
  from T e have "require_parameters no_parameters [''test_framework'', ''project_path''] =
        Inl (PyExn ''ValueError'' (''Missing required parameters: ''
               @ join '', '' (filter (\<lambda>k. no_parameters k = None)
                   [''test_framework'', ''project_path''])))"
    by blast
  then have r: "require_parameters no_parameters [''test_framework'', ''project_path''] =
       Inl (PyExn ''ValueError''
              ''Missing required parameters: test_framework, project_path'')"
    by (simp add: n)
  from T n have "construct_and_run (TestCommand_validate_parameters pytest_runtime)
        (TestCommand_execute pytest_runtime) no_parameters =
          (Inl (PyExn ''ValueError'' (''Missing required parameters: ''
             @ join '', '' (filter (\<lambda>k. no_parameters k = None)
                  [''test_framework'', ''project_path'']))), [])"
    by blast
  then have c: "construct_and_run (TestCommand_validate_parameters pytest_runtime)
        (TestCommand_execute pytest_runtime) no_parameters =
       (Inl (PyExn ''ValueError''
               ''Missing required parameters: test_framework, project_path''), [])"
    by (simp add: n)
  have "contains ''test_framework'' ''test_framework, project_path''"
    "contains ''project_path'' ''test_framework, project_path''"
    by simp_all
  with n r c show ?thesis by blast
qed

text \<open>
  C1, as amended. An exception raised by \<open>execute\<close> (assembling, invoking, parsing) is
  caught by \<open>run\<close> and converted into an envelope with \<open>success = False\<close>, the message
  \<open>Command execution failed:\<close> followed by the name of the exception's class, no data
  and the exception's text as error detail; a result of \<open>execute\<close> is returned as it is.
  Once the command is constructed, the caller of \<open>run\<close> gets an envelope. An exception
  raised by the validation leaves the constructor and reaches the caller.
\<close>

theorem run_converts_execute_exceptions:
  "(execute ps = (Inl e, calls) \<longrightarrow>
      run (execute ps) =
        (\<lparr>success = False, message = ''Command execution failed: '' @ exn_type e,
          output_data = None, error_details = Some (exn_str e)\<rparr>, calls))
   \<and> (execute ps = (Inr result, calls) \<longrightarrow> run (execute ps) = (result, calls))
   \<and> (validate_parameters ps = Inr () \<longrightarrow>
        construct_and_run validate_parameters execute ps =
          (Inr (fst (run (execute ps))), snd (run (execute ps))))
   \<and> (validate_parameters ps = Inl e' \<longrightarrow>
        construct_and_run validate_parameters execute ps = (Inl e', []))"
  using run_raised [of "execute ps" e calls] run_returned [of "execute ps" result calls]
    construct_and_run_valid [of validate_parameters ps execute]
    construct_and_run_invalid [of validate_parameters ps e' execute]
  by blast

lemma jest_example_execute:
  "TestCommand_execute jest_runtime jest_params =
     (Inl (PyExn ''ValueError'' (''could not convert string to float: '' @ quoted ''1.2.3'')),
      [Shell ''npm test'' ''.''])"
proof -
  have p: "parse_test_results jest_runtime (PStr ''jest'') ''All files | 1.2.3 |''
     = Inl (PyExn ''ValueError'' (''could not convert string to float: '' @ quoted ''1.2.3''))"
    by (simp add: parse_test_results_def in_str_list_def rx_defs py_float_def bindE_def
        jest_runtime_def fixed_runtime_def)
  have c: "prepare_test_command jest_runtime jest_params = Inr ''npm test''"
    by (simp add: prepare_test_command_def jest_params_def bindE_def getitem_def
      default_command_def in_dict_keys_def DEFAULT_TEST_COMMANDS_def get_parameter_def
      truthy_def Let_def)
  have r: "run_process jest_runtime c =
             Inr \<lparr>returncode = 0, stdout = ''All files | 1.2.3 |'', stderr = []\<rparr>" for c
    by (simp add: jest_runtime_def fixed_runtime_def)
  have h1: "jest_params ''test_framework'' = Some (PStr ''jest'')"
    and h2: "jest_params ''project_path'' = Some (PStr ''.'')"
    by (simp_all add: jest_params_def)
  show ?thesis
    by (simp add: TestCommand_execute_def bindIO_def liftE_def returnIO_def getitem_def
        bindE_def make_path_def execute_tests_def subprocess_run_def c r p h1 h2)
qed

lemma jest_example_valid: "TestCommand_validate_parameters jest_runtime jest_params = Inr ()"
  by (simp add: TestCommand_validate_parameters_def require_parameters_def jest_params_def
        bindE_def getitem_def in_dict_keys_def DEFAULT_TEST_COMMANDS_def make_path_def
        jest_runtime_def fixed_runtime_def)

lemma mocha_example_invalid:
  "TestCommand_validate_parameters pytest_runtime mocha_params =
     Inl (PyExn ''ValueError''
       ''Unsupported test framework: mocha. Supported frameworks: maven, gradle, pytest, jest, gotest'')"
  by (simp add: TestCommand_validate_parameters_def require_parameters_def mocha_params_def
        bindE_def getitem_def in_dict_keys_def DEFAULT_TEST_COMMANDS_def py_str_def)

text \<open>
  The Jest run on which parsing raises, and the parameters that the validation rejects.
\<close>

theorem run_converts_execute_exceptions_witness:
  "TestCommand_execute jest_runtime jest_params =
     (Inl (PyExn ''ValueError'' (''could not convert string to float: '' @ quoted ''1.2.3'')),
      [Shell ''npm test'' ''.''])
   \<and> TestCommand_validate_parameters jest_runtime jest_params = Inr ()
   \<and> construct_and_run (TestCommand_validate_parameters jest_runtime)
        (TestCommand_execute jest_runtime) jest_params =
       (Inr \<lparr>success = False, message = ''Command execution failed: ValueError'',
             output_data = None,
             error_details = Some (''could not convert string to float: '' @ quoted ''1.2.3'')\<rparr>,
        [Shell ''npm test'' ''.''])
   \<and> TestCommand_validate_parameters pytest_runtime mocha_params =
       Inl (PyExn ''ValueError''
         ''Unsupported test framework: mocha. Supported frameworks: maven, gradle, pytest, jest, gotest'')
   \<and> construct_and_run (TestCommand_validate_parameters pytest_runtime)
        (TestCommand_execute pytest_runtime) mocha_params =
       (Inl (PyExn ''ValueError''
         ''Unsupported test framework: mocha. Supported frameworks: maven, gradle, pytest, jest, gotest''),
        [])"
proof -
  let ?e = "PyExn ''ValueError'' (''could not convert string to float: '' @ quoted ''1.2.3'')"
  let ?m = "PyExn ''ValueError''
         ''Unsupported test framework: mocha. Supported frameworks: maven, gradle, pytest, jest, gotest''"
  note J = run_converts_execute_exceptions
    [of "TestCommand_execute jest_runtime" jest_params ?e "[Shell ''npm test'' ''.'']" _
        "TestCommand_validate_parameters jest_runtime"]
  note M = run_converts_execute_exceptions
    [of "TestCommand_execute pytest_runtime" mocha_params _ _ _
        "TestCommand_validate_parameters pytest_runtime" ?m]
  from J jest_example_execute
  have r: "run (TestCommand_execute jest_runtime jest_params) =
        (\<lparr>success = False, message = ''Command execution failed: '' @ exn_type ?e,
          output_data = None, error_details = Some (exn_str ?e)\<rparr>, [Shell ''npm test'' ''.''])"
    by blast
  from J jest_example_valid
  have "construct_and_run (TestCommand_validate_parameters jest_runtime)
          (TestCommand_execute jest_runtime) jest_params =
          (Inr (fst (run (TestCommand_execute jest_runtime jest_params))),
           snd (run (TestCommand_execute jest_runtime jest_params)))"
    by blast
  with r have c: "construct_and_run (TestCommand_validate_parameters jest_runtime)
        (TestCommand_execute jest_runtime) jest_params =
       (Inr \<lparr>success = False, message = ''Command execution failed: ValueError'',
             output_data = None,
             error_details = Some (''could not convert string to float: '' @ quoted ''1.2.3'')\<rparr>,
        [Shell ''npm test'' ''.''])"
    by simp
  from M mocha_example_invalid
  have m: "construct_and_run (TestCommand_validate_parameters pytest_runtime)
        (TestCommand_execute pytest_runtime) mocha_params = (Inl ?m, [])"
    by blast
  from jest_example_execute jest_example_valid c mocha_example_invalid m
  show ?thesis by (intro conjI)
qed

text \<open>
  The claim as first stated fails for an unsupported framework: the caller gets the
  \<open>ValueError\<close>, not an envelope.
\<close>

theorem validation_error_reaches_caller_counterexample:
  "construct_and_run (TestCommand_validate_parameters pytest_runtime)
     (TestCommand_execute pytest_runtime) mocha_params =
   (Inl (PyExn ''ValueError''
      ''Unsupported test framework: mocha. Supported frameworks: maven, gradle, pytest, jest, gotest''),
    [])"
  using mocha_example_invalid by (rule construct_and_run_invalid)

section \<open>Properties of the tag generation\<close>



lemma sanitize_branch_chars: "list_all tag_char (sanitize_branch b)"
  by (induction b) (simp_all add: sanitize_branch_def tag_char_def)










end
